theory Spec2Isabelle
  imports Main "HOL-Library.Sublist"
begin

section \<open>The notebooks as programs\<close>

text \<open>
  The repository holds two Jupyter notebooks, \<^verbatim>\<open>05-working-with-tabular-data.ipynb\<close>
  and \<^verbatim>\<open>09-working-with-large-datasets.ipynb\<close>. Their code cells are Python
  statements that call pandas, dask, HoloViews, datashader, GeoViews and Bokeh. Nothing
  of those libraries is part of the repository, so the program text itself is the object
  of study: the abstract syntax of the statements the cells hold, and an evaluator that
  runs them against an arbitrary library.
\<close>

subsection \<open>Abstract syntax\<close>

text \<open>
  The fragment of Python's grammar below has every form the cells use (names, literals,
  attribute access, calls with positional and keyword arguments, the binary operators
  \<^verbatim>\<open>*\<close> and \<^verbatim>\<open>%\<close>, list and tuple displays, imports, assignments to a name or to
  an attribute, expression statements, IPython magics) and the forms whose absence the
  specification asserts (lambda, conditional expression, comprehension, def, class, for,
  while, if, try, with, raise).
\<close>

datatype const = CStr string | CInt int | CBool bool | CNone

datatype binop = Mult | Mod

datatype expr =
    Name string
  | Const const
  | Attr expr string
  | Call expr "expr list" "(string \<times> expr) list"
  | BinOp expr binop expr
  | ListE "expr list"
  | TupleE "expr list"
  | Lambda "string list" expr
  | IfExp expr expr expr
  | ListComp expr string expr

datatype target = TName string | TAttr expr string

datatype stmt =
    Import string string
  | ImportFrom string "string list"
  | Assign target expr
  | ExprS expr
  | Magic string
  | FunctionDef string "string list" "stmt list"
  | ClassDef string "stmt list"
  | For string expr "stmt list"
  | While expr "stmt list"
  | If expr "stmt list" "stmt list"
  | Try "stmt list" "stmt list"
  | With expr "stmt list"
  | Raise expr

text \<open>
  A notebook is its list of cells. A markdown cell holds no code; a code cell holds its
  statements in textual order (comment lines are not statements, so a cell of comments
  only is \<open>Code []\<close>).
\<close>

datatype cell = Markdown | Code "stmt list"

type_synonym notebook = "cell list"

abbreviation Str :: "string \<Rightarrow> expr" where
  "Str s \<equiv> Const (CStr s)"

abbreviation Num :: "int \<Rightarrow> expr" where
  "Num n \<equiv> Const (CInt n)"

subsection \<open>Notebook 05: working with tabular data\<close>

text \<open>
  The cells of \<^verbatim>\<open>src/notebooks/05-working-with-tabular-data.ipynb\<close> in document order.
  The code cells with statements are at source lines 26-31 (imports), 47-48
  (\<^verbatim>\<open>read_csv\<close>), 80-81 (\<^verbatim>\<open>hv.Dataset\<close>), 97 (\<^verbatim>\<open>redim.label\<close>), 137-139 (curves),
  157-159 (bars), 195-198 (box plots), 225-227 (scatter), 278-280 and 301-303
  (aggregates); the other code cells hold exercise comments or nothing.
\<close>

definition notebook05 :: notebook where
  "notebook05 =
   [ Markdown,
     Markdown,
     Code
      [ Import ''numpy'' ''np'',
        Import ''scipy.stats'' ''ss'',
        Import ''pandas'' ''pd'',
        Import ''holoviews'' ''hv'',
        ExprS (Call (Attr (Name ''hv'') ''extension'') [Str ''bokeh''] []),
        Magic ''%opts Curve Scatter [tools=['hover']]'' ],
     Markdown,
     Code
      [ Assign (TName ''macro_df'')
          (Call (Attr (Name ''pd'') ''read_csv'') [Str ''../data/macro.csv''] []),
        ExprS (Call (Attr (Name ''macro_df'') ''head'') [] []) ],
     Markdown,
     Markdown,
     Markdown,
     Code
      [ Assign (TName ''macro'')
          (Call (Attr (Name ''hv'') ''Dataset'') [Name ''macro_df'']
             [(''kdims'', ListE [Str ''country'', Str ''year''])]),
        ExprS (Name ''macro'') ],
     Markdown,
     Code
      [ Assign (TName ''macro'')
          (Call (Attr (Attr (Name ''macro'') ''redim'') ''label'') []
             [(''growth'', Str ''GDP Growth''), (''unem'', Str ''Unemployment''),
              (''year'', Str ''Year''), (''country'', Str ''Country'')]) ],
     Markdown,
     Markdown,
     Markdown,
     Code
      [ Assign (TName ''curves'')
          (Call (Attr (Name ''macro'') ''to'') [Attr (Name ''hv'') ''Curve'']
             [(''kdims'', Str ''year''), (''vdims'', Str ''unem''),
              (''groupby'', Str ''country'')]),
        ExprS (Call (Name ''print'') [Name ''curves''] []),
        ExprS (Name ''curves'') ],
     Markdown,
     Code
      [ Magic ''%%opts Bars [width=600 xrotation=45]'',
        Assign (TName ''bars'')
          (Call (Attr (Call (Attr (Name ''macro'') ''sort'') [Str ''country''] []) ''to'')
             [Attr (Name ''hv'') ''Bars'']
             [(''kdims'', Str ''country''), (''vdims'', Str ''unem'')]),
        ExprS (Name ''bars'') ],
     Code [],
     Code [],
     Markdown,
     Code
      [ Magic ''%%opts BoxWhisker [width=800 xrotation=30] (box_fill_color=Palette('Category20'))'',
        ExprS (Call (Attr (Name ''macro'') ''to'')
                 [Attr (Name ''hv'') ''BoxWhisker'', Str ''country'', Str ''growth'']
                 [(''groupby'', ListE [])]),
        ExprS (Call (Attr (Name ''hv'') ''BoxWhisker'') [Name ''macro'']
                 [(''kdims'', ListE [Str ''country'']), (''vdims'', ListE [Str ''growth''])]) ],
     Code [],
     Markdown,
     Code
      [ Magic ''%%opts Scatter [width=800 height=400 size_index='growth'] (color=Palette('Category20') size=5)'',
        Magic ''%%opts NdOverlay [legend_position='left']'',
        ExprS (Call (Attr
                 (Call (Attr
                    (Call (Attr (Name ''macro'') ''to'')
                       [Attr (Name ''hv'') ''Scatter'', Str ''year'',
                        ListE [Str ''unem'', Str ''growth'']] [])
                    ''overlay'') [] [])
                 ''relabel'') [Str ''OECD Unemployment 1960 - 1990''] []) ],
     Code [],
     Code [],
     Code [],
     Markdown,
     Markdown,
     Code
      [ Magic ''%%opts Curve [width=600]'',
        Assign (TName ''agg'')
          (Call (Attr (Name ''macro'') ''aggregate'') [Str ''year'']
             [(''function'', Attr (Name ''np'') ''mean''),
              (''spreadfn'', Attr (Name ''np'') ''std'')]),
        ExprS (BinOp (Call (Attr (Name ''hv'') ''Curve'') [Name ''agg''] []) Mult
                 (Call (Attr (Name ''hv'') ''ErrorBars'') [Name ''agg'']
                    [(''kdims'', ListE [Str ''year'']),
                     (''vdims'', ListE [Str ''growth'', Str ''growth_std''])])) ],
     Code [],
     Code
      [ Magic ''%%opts Bars [width=600 xrotation=45]'',
        Assign (TName ''agg'')
          (Call (Attr (Name ''macro'') ''aggregate'') [Str ''country'']
             [(''function'', Attr (Name ''np'') ''mean''),
              (''spreadfn'', Attr (Name ''ss'') ''sem'')]),
        ExprS (Call (Attr (Name ''hv'') ''Bars'') [Name ''agg''] []) ],
     Code [],
     Code [],
     Markdown ]"

subsection \<open>Notebook 09: working with large datasets\<close>

text \<open>
  The cells of \<^verbatim>\<open>src/notebooks/09-working-with-large-datasets.ipynb\<close> in document order.
  The code cells with statements are at source lines 63-70 (imports), 104-107
  (\<^verbatim>\<open>read_parquet\<close>), 127 (points), 143-144 (\<^verbatim>\<open>datashade\<close>), 160, 171-175 (an
  import in an exercise cell), 198-203 (tile source), 214-216, 239-241 (selection),
  271-274 (grouping) and 309-311 (hover information).
\<close>

definition notebook09 :: notebook where
  \<open>notebook09 =
   [ Markdown,
     Markdown,
     Markdown,
     Markdown,
     Code
      [ Import ''pandas'' ''pd'',
        Import ''holoviews'' ''hv'',
        Import ''dask.dataframe'' ''dd'',
        Import ''datashader'' ''ds'',
        Import ''geoviews'' ''gv'',
        ImportFrom ''holoviews.operation.datashader'' [''datashade'', ''aggregate''],
        ExprS (Call (Attr (Name ''hv'') ''extension'') [Str ''bokeh''] []) ],
     Markdown,
     Markdown,
     Markdown,
     Code
      [ Assign (TName ''ddf'')
          (Call (Attr
             (Call (Attr (Name ''dd'') ''read_parquet'') [Str ''../data/nyc_taxi_hours.parq/''] [])
             ''persist'') [] []),
        ExprS (Call (Name ''print'')
                 [BinOp (Str ''%s Rows'') Mod (Call (Name ''len'') [Name ''ddf''] [])] []),
        ExprS (Call (Name ''print'')
                 [Str ''Columns:'',
                  Call (Name ''list'') [Attr (Name ''ddf'') ''columns''] []] []) ],
     Markdown,
     Code
      [ Assign (TName ''points'')
          (Call (Attr (Name ''hv'') ''Points'') [Name ''ddf'']
             [(''kdims'', ListE [Str ''dropoff_x'', Str ''dropoff_y''])]) ],
     Markdown,
     Code
      [ Magic ''%opts RGB [width=600 height=500 bgcolor="black"]'',
        ExprS (Call (Name ''datashade'') [Name ''points''] []) ],
     Markdown,
     Code
      [ ExprS (Attr (Name ''datashade'') ''streams'') ],
     Code
      [ ImportFrom ''datashader.colors'' [''inferno''] ],
     Markdown,
     Markdown,
     Code
      [ Magic ''%opts RGB [xaxis=None yaxis=None]'',
        Import ''geoviews'' ''gv'',
        ImportFrom ''bokeh.models'' [''WMTSTileSource''],
        Assign (TName ''url'')
          (Str ''https://server.arcgisonline.com/ArcGIS/rest/services/World_Imagery/MapServer/tile/{Z}/{Y}/{X}.jpg''),
        Assign (TName ''wmts'')
          (Call (Name ''WMTSTileSource'') [] [(''url'', Name ''url'')]),
        ExprS (BinOp (Call (Attr (Name ''gv'') ''WMTS'') [Name ''wmts''] []) Mult
                 (Call (Name ''datashade'') [Name ''points''] [])) ],
     Code
      [ Assign (TName ''wiki_url'')
          (Str ''https://maps.wikimedia.org/osm-intl/{Z}/{X}/{Y}@2x.png'') ],
     Markdown,
     Markdown,
     Code
      [ Assign (TName ''selected'')
          (Call (Attr (Name ''points'') ''select'') []
             [(''fare_amount'', TupleE [Const CNone, Num 1000])]),
        Assign (TAttr (Name ''selected'') ''data'')
          (Call (Attr (Attr (Name ''selected'') ''data'') ''persist'') [] []),
        ExprS (BinOp (Call (Attr (Name ''gv'') ''WMTS'') [Name ''wmts''] []) Mult
                 (Call (Name ''datashade'') [Name ''selected'']
                    [(''aggregator'',
                      Call (Attr (Name ''ds'') ''mean'') [Str ''fare_amount''] [])])) ],
     Code [],
     Markdown,
     Code
      [ Magic ''%opts Image [width=600 height=500 logz=True xaxis=None yaxis=None]'',
        Assign (TName ''taxi_ds'')
          (Call (Attr (Name ''hv'') ''Dataset'') [Name ''ddf''] []),
        Assign (TName ''grouped'')
          (Call (Attr (Name ''taxi_ds'') ''to'')
             [Attr (Name ''hv'') ''Points'', ListE [Str ''dropoff_x'', Str ''dropoff_y'']]
             [(''groupby'', ListE [Str ''dropoff_hour'']), (''dynamic'', Const (CBool True))]),
        ExprS (Call (Attr (Attr (Call (Name ''aggregate'') [Name ''grouped''] []) ''redim'') ''values'')
                 [] [(''dropoff_hour'', Call (Name ''range'') [Num 24] [])]) ],
     Code [],
     Markdown,
     Markdown,
     Code
      [ Magic ''%%opts QuadMesh [width=800 height=400 tools=['hover']] (alpha=0 hover_line_alpha=1 hover_fill_alpha=0)'',
        Assign (TName ''hover_info'')
          (Call (Attr
             (Call (Name ''aggregate'') [Name ''points'']
                [(''width'', Num 40), (''height'', Num 20),
                 (''streams'', ListE [Attr (Attr (Name ''hv'') ''streams'') ''RangeXY''])])
             ''map'')
             [Attr (Name ''hv'') ''QuadMesh'', Attr (Name ''hv'') ''Image''] []),
        ExprS (BinOp
                 (BinOp (Call (Attr (Name ''gv'') ''WMTS'') [Name ''wmts''] []) Mult
                    (Call (Name ''datashade'') [Name ''points''] []))
                 Mult (Name ''hover_info'')) ],
     Markdown ]\<close>

fun cell_stmts :: "cell \<Rightarrow> stmt list" where
  "cell_stmts Markdown = []"
| "cell_stmts (Code ss) = ss"

definition code_stmts :: "notebook \<Rightarrow> stmt list" where
  "code_stmts nb = concat (map cell_stmts nb)"

section \<open>Running a notebook against a library\<close>

subsection \<open>The libraries as a parameter\<close>



definition py_builtins :: "string list" where
  "py_builtins =
   [''abs'', ''all'', ''any'', ''ascii'', ''bin'', ''bool'', ''bytearray'', ''bytes'',
    ''callable'', ''chr'', ''classmethod'', ''compile'', ''complex'', ''delattr'', ''dict'',
    ''dir'', ''divmod'', ''enumerate'', ''eval'', ''exec'', ''filter'', ''float'', ''format'',
    ''frozenset'', ''getattr'', ''globals'', ''hasattr'', ''hash'', ''help'', ''hex'', ''id'',
    ''input'', ''int'', ''isinstance'', ''issubclass'', ''iter'', ''len'', ''list'', ''locals'',
    ''map'', ''max'', ''memoryview'', ''min'', ''next'', ''object'', ''oct'', ''open'', ''ord'',
    ''pow'', ''print'', ''property'', ''range'', ''repr'', ''reversed'', ''round'', ''set'',
    ''setattr'', ''slice'', ''sorted'', ''staticmethod'', ''str'', ''sum'', ''super'', ''tuple'',
    ''type'', ''vars'', ''zip'', ''__import__'']"


subsection \<open>Expressions\<close>


subsection \<open>Statements, cells, notebooks\<close>


definition magic_name :: "string \<Rightarrow> string" where
  "magic_name m =
     takeWhile (\<lambda>c. c \<noteq> CHR '' '') (if take 2 m = ''%%'' then drop 2 m else drop 1 m)"

definition opts_line :: "string \<Rightarrow> bool" where
  "opts_line m = (take 1 m = ''%'' \<and> take 2 m \<noteq> ''%%'' \<and> magic_name m = ''opts'')"

definition opts_cell :: "string \<Rightarrow> bool" where
  "opts_cell m = (take 2 m = ''%%'' \<and> magic_name m = ''opts'')"









section \<open>Static properties of the program text\<close>

subsection \<open>Straight-line statements and scoping\<close>

text \<open>
  \<open>plain\<close> expressions hold no lambda, conditional expression or comprehension;
  \<open>reads\<close> lists the free names of an expression. A \<open>straight\<close> statement is an import,
  an assignment or an expression statement over plain expressions, or a magic
  \<^verbatim>\<open>%opts\<close> or \<^verbatim>\<open>%%opts\<close>. A statement list is \<open>scoped\<close> from the bound names \<open>B\<close>
  when each statement is straight and reads only names bound by the statements before it,
  or builtins.
\<close>

fun plain :: "expr \<Rightarrow> bool" and plain_kw :: "(string \<times> expr) list \<Rightarrow> bool" where
  "plain (Name x) = True"
| "plain (Const c) = True"
| "plain (Attr e a) = plain e"
| "plain (Call f as kws) = (plain f \<and> list_all plain as \<and> plain_kw kws)"
| "plain (BinOp l b r) = (plain l \<and> plain r)"
| "plain (ListE es) = list_all plain es"
| "plain (TupleE es) = list_all plain es"
| "plain (Lambda ps e) = False"
| "plain (IfExp c a b) = False"
| "plain (ListComp e x it) = False"
| "plain_kw [] = True"
| "plain_kw ((k, e) # kws) = (plain e \<and> plain_kw kws)"

fun reads :: "expr \<Rightarrow> string list" and reads_kw :: "(string \<times> expr) list \<Rightarrow> string list" where
  "reads (Name x) = [x]"
| "reads (Const c) = []"
| "reads (Attr e a) = reads e"
| "reads (Call f as kws) = reads f @ concat (map reads as) @ reads_kw kws"
| "reads (BinOp l b r) = reads l @ reads r"
| "reads (ListE es) = concat (map reads es)"
| "reads (TupleE es) = concat (map reads es)"
| "reads (Lambda ps e) = filter (\<lambda>x. x \<notin> set ps) (reads e)"
| "reads (IfExp c a b) = reads c @ reads a @ reads b"
| "reads (ListComp e x it) = reads it @ filter (\<lambda>y. y \<noteq> x) (reads e)"
| "reads_kw [] = []"
| "reads_kw ((k, e) # kws) = reads e @ reads_kw kws"


fun binds :: "stmt \<Rightarrow> string list" where
  "binds (Import m a) = [a]"
| "binds (ImportFrom m ns) = ns"
| "binds (Assign (TName x) e) = [x]"
| "binds (FunctionDef f ps body) = [f]"
| "binds (ClassDef c body) = [c]"
| "binds s = []"

fun uses :: "stmt \<Rightarrow> string list" where
  "uses (Assign (TName x) e) = reads e"
| "uses (Assign (TAttr obj a) e) = reads e @ reads obj"
| "uses (ExprS e) = reads e"
| "uses s = []"

fun straight :: "stmt \<Rightarrow> bool" where
  "straight (Import m a) = True"
| "straight (ImportFrom m ns) = True"
| "straight (Assign (TName x) e) = plain e"
| "straight (Assign (TAttr obj a) e) = (plain e \<and> plain obj)"
| "straight (ExprS e) = plain e"
| "straight (Magic m) = (opts_line m \<or> opts_cell m)"
| "straight s = False"

fun scoped :: "string list \<Rightarrow> stmt list \<Rightarrow> bool" where
  "scoped B [] = True"
| "scoped B (s # ss) =
     (straight s \<and> list_all (\<lambda>x. x \<in> set (B @ py_builtins)) (uses s) \<and> scoped (binds s @ B) ss)"



subsection \<open>Scoping cell by cell\<close>









subsection \<open>Kinds of statement\<close>

text \<open>
  An application is a call or an operator application; a reference is a name or an
  attribute chain on a name. A magic \<^verbatim>\<open>%opts\<close> or \<^verbatim>\<open>%%opts\<close> is a directive to
  HoloViews, which IPython runs as a call of the magic function the library registered.
  \<open>spec_pass_through\<close> is the specification's reading of a pass-through statement: an
  import, the binding of a literal, or the application of an external function, a
  directive being one.
\<close>

datatype kind = Imports | BindsLiteral | Applies | Directive | Displays | Other

fun is_application :: "expr \<Rightarrow> bool" where
  "is_application (Call f as kws) = True"
| "is_application (BinOp l b r) = True"
| "is_application e = False"

fun is_reference :: "expr \<Rightarrow> bool" where
  "is_reference (Name x) = True"
| "is_reference (Attr e a) = is_reference e"
| "is_reference e = False"

fun kind_of :: "stmt \<Rightarrow> kind" where
  "kind_of (Import m a) = Imports"
| "kind_of (ImportFrom m ns) = Imports"
| "kind_of (Assign (TName x) (Const c)) = BindsLiteral"
| "kind_of (Assign (TName x) e) = (if is_application e \<and> plain e then Applies else Other)"
| "kind_of (Assign (TAttr obj a) e) =
     (if is_application e \<and> plain e \<and> is_reference obj then Applies else Other)"
| "kind_of (ExprS e) =
     (if is_application e \<and> plain e then Applies else if is_reference e then Displays else Other)"
| "kind_of (Magic m) = (if opts_line m \<or> opts_cell m then Directive else Other)"
| "kind_of s = Other"

definition spec_pass_through :: "stmt \<Rightarrow> bool" where
  "spec_pass_through s =
     (kind_of s = Imports \<or> kind_of s = BindsLiteral \<or> kind_of s = Applies \<or> kind_of s = Directive)"

subsection \<open>Error logic, imports, builtins, magics, callees and string literals\<close>



fun unbound_reads :: "string list \<Rightarrow> stmt list \<Rightarrow> string list" where
  "unbound_reads B [] = []"
| "unbound_reads B (s # ss) = filter (\<lambda>x. x \<notin> set B) (uses s) @ unbound_reads (binds s @ B) ss"

fun magics :: "stmt \<Rightarrow> string list" where
  "magics (Magic m) = [m]"
| "magics s = []"

fun stmt_exprs :: "stmt \<Rightarrow> expr list" where
  "stmt_exprs (Assign (TName x) e) = [e]"
| "stmt_exprs (Assign (TAttr obj a) e) = [e, obj]"
| "stmt_exprs (ExprS e) = [e]"
| "stmt_exprs s = []"

definition exprs :: "stmt list \<Rightarrow> expr list" where
  "exprs ss = concat (map stmt_exprs ss)"

fun callees :: "expr \<Rightarrow> expr list" and callees_kw :: "(string \<times> expr) list \<Rightarrow> expr list" where
  "callees (Name x) = []"
| "callees (Const c) = []"
| "callees (Attr e a) = callees e"
| "callees (Call f as kws) = f # callees f @ concat (map callees as) @ callees_kw kws"
| "callees (BinOp l b r) = callees l @ callees r"
| "callees (ListE es) = concat (map callees es)"
| "callees (TupleE es) = concat (map callees es)"
| "callees (Lambda ps e) = callees e"
| "callees (IfExp c a b) = callees c @ callees a @ callees b"
| "callees (ListComp e x it) = callees it @ callees e"
| "callees_kw [] = []"
| "callees_kw ((k, e) # kws) = callees e @ callees_kw kws"

fun strings :: "expr \<Rightarrow> string list" and strings_kw :: "(string \<times> expr) list \<Rightarrow> string list" where
  "strings (Name x) = []"
| "strings (Const (CStr s)) = [s]"
| "strings (Const c) = []"
| "strings (Attr e a) = strings e"
| "strings (Call f as kws) = strings f @ concat (map strings as) @ strings_kw kws"
| "strings (BinOp l b r) = strings l @ strings r"
| "strings (ListE es) = concat (map strings es)"
| "strings (TupleE es) = concat (map strings es)"
| "strings (Lambda ps e) = strings e"
| "strings (IfExp c a b) = strings c @ strings a @ strings b"
| "strings (ListComp e x it) = strings it @ strings e"
| "strings_kw [] = []"
| "strings_kw ((k, e) # kws) = strings e @ strings_kw kws"

fun arg_strings :: "expr \<Rightarrow> string list" where
  "arg_strings (Const (CStr s)) = [s]"
| "arg_strings (ListE es) = concat (map arg_strings es)"
| "arg_strings (TupleE es) = concat (map arg_strings es)"
| "arg_strings (BinOp l b r) = arg_strings l @ arg_strings r"
| "arg_strings (IfExp c a b) = arg_strings c @ arg_strings a @ arg_strings b"
| "arg_strings e = []"

fun call_strings :: "expr \<Rightarrow> (expr \<times> string) list"
and call_strings_kw :: "(string \<times> expr) list \<Rightarrow> (expr \<times> string) list" where
  "call_strings (Name x) = []"
| "call_strings (Const c) = []"
| "call_strings (Attr e a) = call_strings e"
| "call_strings (Call f as kws) =
     call_strings f @
     map (Pair f) (concat (map arg_strings as) @ concat (map (arg_strings \<circ> snd) kws)) @
     concat (map call_strings as) @ call_strings_kw kws"
| "call_strings (BinOp l b r) = call_strings l @ call_strings r"
| "call_strings (ListE es) = concat (map call_strings es)"
| "call_strings (TupleE es) = concat (map call_strings es)"
| "call_strings (Lambda ps e) = call_strings e"
| "call_strings (IfExp c a b) = call_strings c @ call_strings a @ call_strings b"
| "call_strings (ListComp e x it) = call_strings it @ call_strings e"
| "call_strings_kw [] = []"
| "call_strings_kw ((k, e) # kws) = call_strings e @ call_strings_kw kws"





subsection \<open>Attribute assignments, conversions and dataset declarations\<close>

text \<open>
  \<open>attr_targets\<close> lists the attribute a statement assigns to, with its object.
  \<open>conversions\<close> lists the calls of a method named \<^verbatim>\<open>to\<close>, each with its receiver and
  its \<^verbatim>\<open>groupby\<close> argument when it has one; \<open>dataset_kdims\<close> lists the names bound to
  a call of \<^verbatim>\<open>hv.Dataset\<close>, each with the \<^verbatim>\<open>kdims\<close> argument of that call when it
  has one.
\<close>

fun attr_targets :: "stmt \<Rightarrow> (expr \<times> string) list" where
  "attr_targets (Assign (TAttr obj a) e) = [(obj, a)]"
| "attr_targets s = []"

fun keyword :: "string \<Rightarrow> (string \<times> expr) list \<Rightarrow> expr option" where
  "keyword k [] = None"
| "keyword k ((k', e) # kws) = (if k = k' then Some e else keyword k kws)"

fun method_to :: "expr \<Rightarrow> (string \<times> expr) list \<Rightarrow> (expr \<times> expr option) list" where
  "method_to (Attr r a) kws = (if a = ''to'' then [(r, keyword ''groupby'' kws)] else [])"
| "method_to f kws = []"

fun conversions :: "expr \<Rightarrow> (expr \<times> expr option) list"
and conversions_kw :: "(string \<times> expr) list \<Rightarrow> (expr \<times> expr option) list" where
  "conversions (Name x) = []"
| "conversions (Const c) = []"
| "conversions (Attr e a) = conversions e"
| "conversions (Call f as kws) =
     method_to f kws @ conversions f @ concat (map conversions as) @ conversions_kw kws"
| "conversions (BinOp l b r) = conversions l @ conversions r"
| "conversions (ListE es) = concat (map conversions es)"
| "conversions (TupleE es) = concat (map conversions es)"
| "conversions (Lambda ps e) = conversions e"
| "conversions (IfExp c a b) = conversions c @ conversions a @ conversions b"
| "conversions (ListComp e x it) = conversions it @ conversions e"
| "conversions_kw [] = []"
| "conversions_kw ((k, e) # kws) = conversions e @ conversions_kw kws"

fun dataset_kdims :: "stmt \<Rightarrow> (string \<times> expr option) list" where
  "dataset_kdims (Assign (TName x) (Call f as kws)) =
     (if f = Attr (Name ''hv'') ''Dataset'' then [(x, keyword ''kdims'' kws)] else [])"
| "dataset_kdims s = []"

section \<open>Recording the exceptions the libraries raise\<close>








section \<open>A symbolic library\<close>







section \<open>Soundness of the static checks\<close>

subsection \<open>Scoped straight-line code fails only with a library's exception\<close>



lemma scoped_mono: "scoped B ss \<Longrightarrow> set B \<subseteq> set B' \<Longrightarrow> scoped B' ss"
proof (induction ss arbitrary: B B')
  case Nil
  then show ?case by simp
next
  case (Cons s ss)
  have "set (binds s @ B) \<subseteq> set (binds s @ B')" using Cons.prems(2) by auto
  with Cons show ?case by (auto simp: list_all_iff)
qed

lemma scoped_set: "set B = set B' \<Longrightarrow> scoped B ss = scoped B' ss"
  using scoped_mono[of B ss B'] scoped_mono[of B' ss B] by auto




lemma scoped_append:
  "scoped B (xs @ ys) = (scoped B xs \<and> scoped (concat (map binds xs) @ B) ys)"
proof (induction xs arbitrary: B)
  case Nil
  show ?case by simp
next
  case (Cons s xs)
  have "scoped (concat (map binds xs) @ binds s @ B) ys = scoped (binds s @ concat (map binds xs) @ B) ys"
    by (rule scoped_set) auto
  with Cons[of "binds s @ B"] show ?case by auto
qed





subsection \<open>Cells and notebooks\<close>




lemma scoped05: "scoped [] (code_stmts notebook05)"
  by (simp add: code_stmts_def notebook05_def py_builtins_def opts_line_def opts_cell_def magic_name_def)

lemma scoped09: "scoped [] (code_stmts notebook09)"
  by (simp add: code_stmts_def notebook09_def py_builtins_def opts_line_def opts_cell_def magic_name_def)



subsection \<open>Every exception raised is reported\<close>















subsection \<open>The cells before the first cell magic\<close>








section \<open>The claims\<close>

subsection \<open>Linear execution\<close>





subsection \<open>Pass-through statements\<close>

lemmas magic_simps = opts_line_def opts_cell_def magic_name_def

lemma kinds05:
  "map kind_of (code_stmts notebook05) =
     [Imports, Imports, Imports, Imports, Applies, Directive,
      Applies, Applies,
      Applies, Displays,
      Applies,
      Applies, Applies, Displays,
      Directive, Applies, Displays,
      Directive, Applies, Applies,
      Directive, Directive, Applies,
      Directive, Applies, Applies,
      Directive, Applies, Applies]"
  by (simp add: code_stmts_def notebook05_def magic_simps)

lemma kinds09:
  "map kind_of (code_stmts notebook09) =
     [Imports, Imports, Imports, Imports, Imports, Imports, Applies,
      Applies, Applies, Applies,
      Applies,
      Directive, Applies,
      Displays,
      Imports,
      Directive, Imports, Imports, BindsLiteral, Applies, Applies,
      BindsLiteral,
      Applies, Applies, Applies,
      Directive, Applies, Applies, Applies,
      Directive, Applies, Applies]"
  by (simp add: code_stmts_def notebook09_def magic_simps)

lemma straight05: "list_all straight (code_stmts notebook05)"
  by (simp add: code_stmts_def notebook05_def magic_simps)

lemma straight09: "list_all straight (code_stmts notebook09)"
  by (simp add: code_stmts_def notebook09_def magic_simps)

lemma builtins05: "unbound_reads [] (code_stmts notebook05) = [''print'']"
  by (simp add: code_stmts_def notebook05_def)

lemma builtins09:
  "unbound_reads [] (code_stmts notebook09) = [''print'', ''len'', ''print'', ''list'', ''range'']"
  by (simp add: code_stmts_def notebook09_def)



lemma magics05:
  "map magic_name (concat (map magics (code_stmts notebook05))) =
     [''opts'', ''opts'', ''opts'', ''opts'', ''opts'', ''opts'', ''opts'']"
  by (simp add: code_stmts_def notebook05_def magic_simps)

lemma magics09:
  "map magic_name (concat (map magics (code_stmts notebook09))) =
     [''opts'', ''opts'', ''opts'', ''opts'']"
  by (simp add: code_stmts_def notebook09_def magic_simps)

text \<open>
  Claim C1, as stated, fails. It allows three kinds of statement: an import, the binding
  of a literal, the application of an external library function. Notebook 05 holds the
  statement \<^verbatim>\<open>macro\<close> (source line 81), which only names a bound value for display: it
  imports nothing, binds nothing and applies no function.
\<close>

theorem display_statement_is_no_pass_through:
  "ExprS (Name ''macro'') \<in> set (code_stmts notebook05) \<and>
   kind_of (ExprS (Name ''macro'')) = Displays \<and>
   \<not> spec_pass_through (ExprS (Name ''macro'')) \<and>
   \<not> list_all spec_pass_through (code_stmts notebook05)"
  by (simp add: code_stmts_def notebook05_def spec_pass_through_def magic_simps)

text \<open>
  Claim C1, amended. Every code statement of both notebooks is of one of five kinds: it
  imports a library, binds a literal to a name, applies an external function (a library
  function or method, a library's operator, or a Python builtin) over plain expressions,
  is a magic \<^verbatim>\<open>%opts\<close> or \<^verbatim>\<open>%%opts\<close> of HoloViews, or only names a bound value or an
  attribute of one for display. The kind of each statement is listed in textual order.
  Every statement is straight-line (none defines a function or a class, none is a loop, a
  conditional, a try, a with or a raise, and no expression holds a lambda, a conditional
  expression or a comprehension), every name a statement reads is bound by an earlier
  statement or is a builtin, and the builtins read are \<^verbatim>\<open>print\<close>, \<^verbatim>\<open>len\<close>,
  \<^verbatim>\<open>list\<close> and \<^verbatim>\<open>range\<close>.
\<close>

theorem statements_pass_through:
  "map kind_of (code_stmts notebook05) =
     [Imports, Imports, Imports, Imports, Applies, Directive,
      Applies, Applies,
      Applies, Displays,
      Applies,
      Applies, Applies, Displays,
      Directive, Applies, Displays,
      Directive, Applies, Applies,
      Directive, Directive, Applies,
      Directive, Applies, Applies,
      Directive, Applies, Applies] \<and>
   map kind_of (code_stmts notebook09) =
     [Imports, Imports, Imports, Imports, Imports, Imports, Applies,
      Applies, Applies, Applies,
      Applies,
      Directive, Applies,
      Displays,
      Imports,
      Directive, Imports, Imports, BindsLiteral, Applies, Applies,
      BindsLiteral,
      Applies, Applies, Applies,
      Directive, Applies, Applies, Applies,
      Directive, Applies, Applies] \<and>
   list_all straight (code_stmts notebook05) \<and> list_all straight (code_stmts notebook09) \<and>
   scoped [] (code_stmts notebook05) \<and> scoped [] (code_stmts notebook09) \<and>
   unbound_reads [] (code_stmts notebook05) = [''print''] \<and>
   unbound_reads [] (code_stmts notebook09) = [''print'', ''len'', ''print'', ''list'', ''range''] \<and>
   map magic_name (concat (map magics (code_stmts notebook05))) =
     [''opts'', ''opts'', ''opts'', ''opts'', ''opts'', ''opts'', ''opts''] \<and>
   map magic_name (concat (map magics (code_stmts notebook09))) =
     [''opts'', ''opts'', ''opts'', ''opts'']"
  using kinds05 kinds09 straight05 straight09 scoped05 scoped09 builtins05 builtins09
    magics05 magics09
  by (intro conjI)

subsection \<open>Failures\<close>







subsection \<open>External interfaces\<close>













subsection \<open>Concurrency\<close>






subsection \<open>What the program text fixes of the library-dependent behaviour\<close>

text \<open>
  Whether an attribute assignment leaves other objects alone, which dimensions a dataset
  has, and what \<^verbatim>\<open>to\<close>, \<^verbatim>\<open>redim.label\<close> and \<^verbatim>\<open>aggregate\<close> return is decided inside
  HoloViews, pandas and dask. The program text fixes only the following. There is one
  assignment to an attribute, \<^verbatim>\<open>selected.data = ...\<close> in notebook 09. The
  conversions with a \<^verbatim>\<open>groupby\<close> argument are \<^verbatim>\<open>macro.to(..., groupby='country')\<close>
  and \<^verbatim>\<open>macro.to(..., groupby=[])\<close> in notebook 05 and
  \<^verbatim>\<open>taxi_ds.to(..., groupby=['dropoff_hour'])\<close> in notebook 09. The dataset \<open>macro\<close> is
  declared with key dimensions \<^verbatim>\<open>['country', 'year']\<close>; the dataset \<open>taxi_ds\<close> is
  declared with none, its dimensions being left to the library.
\<close>

lemma attribute_assignments:
  "concat (map attr_targets (code_stmts notebook05)) = []"
  "concat (map attr_targets (code_stmts notebook09)) = [(Name ''selected'', ''data'')]"
  by (simp_all add: code_stmts_def notebook05_def notebook09_def)

lemma conversions_in_notebooks:
  "concat (map conversions (exprs (code_stmts notebook05))) =
     [(Name ''macro'', Some (Str ''country'')),
      (Call (Attr (Name ''macro'') ''sort'') [Str ''country''] [], None),
      (Name ''macro'', Some (ListE [])),
      (Name ''macro'', None)]"
  "concat (map conversions (exprs (code_stmts notebook09))) =
     [(Name ''taxi_ds'', Some (ListE [Str ''dropoff_hour'']))]"
  by (simp_all add: exprs_def code_stmts_def notebook05_def notebook09_def)

lemma dataset_declarations:
  "concat (map dataset_kdims (code_stmts notebook05)) =
     [(''macro'', Some (ListE [Str ''country'', Str ''year'']))]"
  "concat (map dataset_kdims (code_stmts notebook09)) = [(''taxi_ds'', None)]"
  by (simp_all add: code_stmts_def notebook05_def notebook09_def)

end
